theory Spec2Isabelle
  imports
    Main
    "HOL-Library.Char_ord"
    "HOL-Library.List_Lexorder"
    "HOL-Library.Product_Lexorder"
    "HOL-Library.Sublist"
begin

section \<open>Python values used by the plugin\<close>

text \<open>
  Strings are \<^typ>\<open>string\<close>; they are compared as Python compares \<open>str\<close>: character by
  character on the code point, a proper prefix being smaller (the orders of
  \<open>Char_ord\<close> and \<open>List_Lexorder\<close>). Tuples and lists of strings are compared the same
  way, element by element.

  A Python \<open>set\<close> is a HOL set. The order in which a \<open>for\<close> loop or a comprehension visits
  a set is not fixed by the language (for strings it changes with the hash seed of the
  process), so every function that iterates a set takes the iteration order as its
  first argument \<open>iter\<close>. All that is known of it is \<open>set_iteration\<close>: a finite set is
  visited completely, each element once.
\<close>

type_synonym set_order = "string set \<Rightarrow> string list"

definition set_iteration :: "set_order \<Rightarrow> bool" where
  "set_iteration iter \<longleftrightarrow> (\<forall>S. finite S \<longrightarrow> set (iter S) = S \<and> distinct (iter S))"

datatype error = TypeError | AssertionError | KeyError string | ValueError | Unsupported

text \<open>Iterating a \<open>str\<close> yields its characters, each as a string of length one.\<close>

definition iter_str :: "string \<Rightarrow> string list" where
  "iter_str s = map (\<lambda>c. [c]) s"

text \<open>\<open>needle in s\<close> on strings: \<open>needle\<close> occurs in \<open>s\<close> as a contiguous substring.\<close>

definition py_in :: "string \<Rightarrow> string \<Rightarrow> bool" where
  "py_in needle s = sublist needle s"

text \<open>\<open>s.removesuffix(suf)\<close>.\<close>

definition removesuffix :: "string \<Rightarrow> string \<Rightarrow> string" where
  "removesuffix suf s =
     (if suf \<noteq> [] \<and> suffix suf s then take (length s - length suf) s else s)"

text \<open>\<open>p.rfind('/') + 1\<close>: the index just after the last slash, 0 when there is none.\<close>

definition rfind_plus1 :: "string \<Rightarrow> nat" where
  "rfind_plus1 p = length p - length (takeWhile (\<lambda>c. c \<noteq> CHR ''/'') (rev p))"

text \<open>\<open>s.rsplit('/', 1)\<close>: split once, at the last slash.\<close>

definition rsplit1 :: "string \<Rightarrow> string list" where
  "rsplit1 s =
     (if CHR ''/'' \<in> set s then [take (rfind_plus1 s - 1) s, drop (rfind_plus1 s) s] else [s])"

text \<open>
  The final path segment of a URL or path, as the specification names it: the characters
  after the last slash, all of them when there is no slash.
\<close>

definition final_segment :: "string \<Rightarrow> string" where
  "final_segment url = rev (takeWhile (\<lambda>c. c \<noteq> CHR ''/'') (rev url))"

text \<open>\<open>head.rstrip('/')\<close>.\<close>

definition rstrip :: "string \<Rightarrow> string" where
  "rstrip s = rev (dropWhile (\<lambda>c. c = CHR ''/'') (rev s))"

text \<open>
  \<open>os.path.split\<close>, \<open>os.path.basename\<close> and \<open>os.path.join\<close> of the POSIX path module
  (standard library).
\<close>

definition path_split :: "string \<Rightarrow> string \<times> string" where
  "path_split p =
     (let i = rfind_plus1 p; head = take i p; tail = drop i p
      in (if head \<noteq> [] \<and> head \<noteq> replicate (length head) CHR ''/'' then rstrip head else head,
          tail))"

definition basename :: "string \<Rightarrow> string" where
  "basename p = drop (rfind_plus1 p) p"

definition path_join :: "string \<Rightarrow> string \<Rightarrow> string" where
  "path_join a b =
     (if prefix ''/'' b then b
      else if a = [] \<or> suffix ''/'' a then a @ b
      else a @ ''/'' @ b)"

text \<open>Decimal digits of a natural number, as \<open>str(n)\<close> prints them.\<close>

fun string_of_nat :: "nat \<Rightarrow> string" where
  "string_of_nat n =
     (if n < 10 then [char_of (48 + n)]
      else string_of_nat (n div 10) @ [char_of (48 + n mod 10)])"

text \<open>\<open>pluralize(count, item_type)\<close> of \<open>pants.util.strutil\<close> (host library).\<close>

definition pluralize_string :: "string \<Rightarrow> string" where
  "pluralize_string x =
     (if suffix ''s'' x then x @ ''es''
      else if suffix ''y'' x then butlast x @ ''ies''
      else x @ ''s'')"

definition pluralize :: "nat \<Rightarrow> string \<Rightarrow> string" where
  "pluralize count item_type =
     string_of_nat count @ '' '' @ (if count = 1 then item_type else pluralize_string item_type)"

text \<open>
  \<open>template.format(**kw)\<close> for templates whose replacement fields are plain names:
  \<open>{{\<close> and \<open>}}\<close> are literal braces, \<open>{name}\<close> is replaced by \<open>kw[name]\<close>, a missing
  name raises \<open>KeyError\<close>, an unbalanced brace raises \<open>ValueError\<close>. Fields with a
  conversion, a format specification or an attribute or index lookup are not modelled
  (\<open>Unsupported\<close>).
\<close>

function str_format :: "(string \<rightharpoonup> string) \<Rightarrow> string \<Rightarrow> error + string" where
  "str_format kw [] = Inr []"
| "str_format kw (c # cs) =
     (if c = CHR ''{'' then
        (if prefix ''{'' cs then map_sum id ((#) CHR ''{'') (str_format kw (tl cs))
         else if CHR ''}'' \<notin> set cs then Inl ValueError
         else
           (let fname = takeWhile (\<lambda>x. x \<noteq> CHR ''}'') cs;
                rest = tl (dropWhile (\<lambda>x. x \<noteq> CHR ''}'') cs)
            in if fname = [] \<or> set fname \<inter> set ''!:.[{'' \<noteq> {} then Inl Unsupported
               else (case kw fname of
                       None \<Rightarrow> Inl (KeyError fname)
                     | Some v \<Rightarrow> map_sum id ((@) v) (str_format kw rest))))
      else if c = CHR ''}'' then
        (if prefix ''}'' cs then map_sum id ((#) CHR ''}'') (str_format kw (tl cs))
         else Inl ValueError)
      else map_sum id ((#) c) (str_format kw cs))"
  by pat_completeness auto
termination
proof (relation "measure (\<lambda>(kw, s). length s)")
  show "wf (measure (\<lambda>(kw, s). length s))"
    by simp
next
  fix kw :: "string \<rightharpoonup> string" and c :: char and cs :: string
  assume "prefix ''{'' cs"
  then show "((kw, tl cs), (kw, c # cs)) \<in> measure (\<lambda>(kw, s). length s)"
    by simp
next
  fix kw :: "string \<rightharpoonup> string" and c :: char and cs fname rest :: string
  assume "rest = tl (dropWhile (\<lambda>x. x \<noteq> CHR ''}'') cs)"
  moreover have "length (dropWhile (\<lambda>x. x \<noteq> CHR ''}'') cs) \<le> length cs"
    by (rule length_dropWhile_le)
  ultimately show "((kw, rest), (kw, c # cs)) \<in> measure (\<lambda>(kw, s). length s)"
    by simp
next
  fix kw :: "string \<rightharpoonup> string" and c :: char and cs :: string
  assume "prefix ''}'' cs"
  then show "((kw, tl cs), (kw, c # cs)) \<in> measure (\<lambda>(kw, s). length s)"
    by simp
next
  fix kw :: "string \<rightharpoonup> string" and c :: char and cs :: string
  show "((kw, cs), (kw, c # cs)) \<in> measure (\<lambda>(kw, s). length s)"
    by simp
qed

section \<open>Target types (\<open>toml_sources.py\<close>)\<close>

text \<open>
  A field class is recorded by its declared class attributes. \<open>COMMON_TARGET_FIELDS\<close> is a
  constant of the host library, a tuple of fields that every target has and none of
  which is a sources field; the target types take their names as the parameter
  \<open>common\<close>.
\<close>

record MultipleSourcesField =
  sources_default :: "string list"
  uses_source_roots :: bool
  expected_file_extensions :: "string list"

definition TomlSourcesGeneratingSourcesField :: MultipleSourcesField where
  "TomlSourcesGeneratingSourcesField =
     \<lparr>sources_default = [''*.toml''], uses_source_roots = False,
      expected_file_extensions = [''.toml'']\<rparr>"

datatype field_cls =
    CommonField string
  | TomlDependenciesField
  | TomlSourceField
  | SourcesField MultipleSourcesField
  | TomlSourcesOverridesField

record TargetType =
  alias_str :: string
  core_fields :: "field_cls list"
  copied_fields :: "field_cls list"
  moved_fields :: "field_cls list"

definition COMMON_TARGET_FIELDS :: "string list \<Rightarrow> field_cls list" where
  "COMMON_TARGET_FIELDS common = map CommonField common"

definition TomlSourceTarget :: "string list \<Rightarrow> TargetType" where
  "TomlSourceTarget common =
     \<lparr>alias_str = ''toml_source'',
      core_fields = COMMON_TARGET_FIELDS common @ [TomlDependenciesField, TomlSourceField],
      copied_fields = [], moved_fields = []\<rparr>"

definition TomlSourcesGeneratorTarget :: "string list \<Rightarrow> TargetType" where
  "TomlSourcesGeneratorTarget common =
     \<lparr>alias_str = ''toml_sources'',
      core_fields =
        COMMON_TARGET_FIELDS common
        @ [SourcesField TomlSourcesGeneratingSourcesField, TomlSourcesOverridesField],
      copied_fields = COMMON_TARGET_FIELDS common,
      moved_fields = [TomlDependenciesField]\<rparr>"

definition generated_target_cls :: "string list \<Rightarrow> TargetType" where
  "generated_target_cls common = TomlSourceTarget common"

section \<open>Discovery of unowned TOML files (\<open>toml_sources.py\<close>)\<close>

text \<open>
  \<open>group_by_dir\<close> of \<open>pants.util.dirutil\<close> (host library): for an iterable of paths, a
  dictionary from directory to the set of file names in it,
  \<^verbatim>\<open>
  ret = defaultdict(set)
  for path in paths:
      dirname, filename = os.path.split(path)
      ret[dirname].add(filename)
  \<close>
  The dictionary is an association list in insertion order, which is the order of
  \<open>.items()\<close>; each value lists the elements of its set without repetition.
\<close>

fun dict_add :: "(string \<times> string list) list \<Rightarrow> string \<Rightarrow> string \<Rightarrow> (string \<times> string list) list"
  where
  "dict_add [] k v = [(k, [v])]"
| "dict_add ((k', vs) # d) k v =
     (if k' = k then (k', List.insert v vs) # d else (k', vs) # dict_add d k v)"

definition group_by_dir :: "string list \<Rightarrow> (string \<times> string list) list" where
  "group_by_dir paths =
     fold (\<lambda>path ret. case path_split path of (dirname, filename) \<Rightarrow> dict_add ret dirname filename)
       paths []"

text \<open>
  \<open>PutativeTarget\<close> of \<open>pants.core.goals.tailor\<close> (host library), with the attributes
  that \<open>for_target_type\<close> computes; the others keep their defaults. The constructor
  takes the name from the last path segment when none is given, and raises when sources
  are proposed for a target type that has no default sources. The default sources of a
  target type are those of the first sources field among its core fields: the default
  globs of a multiple-sources field, nothing for the single-source field \<open>TomlSourceField\<close>,
  which has no default.
\<close>

record PutativeTarget =
  path :: string
  name :: string
  type_alias_str :: string
  triggering_sources :: "string list"
  owned_sources :: "string list"

fun default_sources_for_target_type :: "field_cls list \<Rightarrow> string list" where
  "default_sources_for_target_type [] = []"
| "default_sources_for_target_type (SourcesField f # fs) = sources_default f"
| "default_sources_for_target_type (TomlSourceField # fs) = []"
| "default_sources_for_target_type (f # fs) = default_sources_for_target_type fs"

definition for_target_type ::
  "TargetType \<Rightarrow> string \<Rightarrow> string option \<Rightarrow> string list \<Rightarrow> error + PutativeTarget" where
  "for_target_type target_type p nm triggering =
     (let nm' = (case nm of None \<Rightarrow> basename p | Some n \<Rightarrow> n);
          default_sources = default_sources_for_target_type (core_fields target_type)
      in if triggering \<noteq> [] \<and> default_sources = [] then Inl AssertionError
         else Inr \<lparr>path = p, name = nm', type_alias_str = alias_str target_type,
                   triggering_sources = triggering, owned_sources = default_sources\<rparr>)"

text \<open>
  The target that \<open>for_target_type\<close> returns for one item \<open>(dirname, filenames)\<close> of
  the dictionary, with the generator target type, no name and the sorted file names.
\<close>

definition proposed_target :: "string \<times> string list \<Rightarrow> PutativeTarget" where
  "proposed_target item =
     \<lparr>path = fst item, name = basename (fst item), type_alias_str = ''toml_sources'',
      triggering_sources = sort (snd item), owned_sources = [''*.toml'']\<rparr>"

text \<open>
  \<open>PutativeTargets\<close> is a deduplicated collection that sorts its input; the elements are
  ordered as dataclasses, by the tuple of their attributes.
\<close>

definition astuple :: "PutativeTarget \<Rightarrow> string \<times> string \<times> string \<times> string list \<times> string list"
  where
  "astuple pt = (path pt, name pt, type_alias_str pt, triggering_sources pt, owned_sources pt)"

definition PutativeTargets :: "PutativeTarget list \<Rightarrow> PutativeTarget list" where
  "PutativeTargets pts = remdups (sort_key astuple pts)"

text \<open>
  The inner loop of \<open>find_putative_targets\<close>, over the items of one dictionary, and the
  outer loop, over the unowned files. The outer loop binds \<open>paths\<close> to one element of
  the set, a single path string, and hands it to \<open>group_by_dir\<close>, which iterates it.
\<close>

fun append_targets ::
  "string list \<Rightarrow> (string \<times> string list) list \<Rightarrow> PutativeTarget list \<Rightarrow> error + PutativeTarget list"
  where
  "append_targets common [] pts = Inr pts"
| "append_targets common ((dirname, filenames) # items) pts =
     (case for_target_type (TomlSourcesGeneratorTarget common) dirname None (sort filenames) of
        Inl e \<Rightarrow> Inl e
      | Inr pt \<Rightarrow> append_targets common items (pts @ [pt]))"

fun collect_targets ::
  "string list \<Rightarrow> string list \<Rightarrow> PutativeTarget list \<Rightarrow> error + PutativeTarget list" where
  "collect_targets common [] pts = Inr pts"
| "collect_targets common (paths # rest) pts =
     (case append_targets common (group_by_dir (iter_str paths)) pts of
        Inl e \<Rightarrow> Inl e
      | Inr pts' \<Rightarrow> collect_targets common rest pts')"

text \<open>
  \<open>find_putative_targets\<close>: \<open>tailor\<close> is the option of \<open>TomlSetup\<close>, \<open>all_toml_files\<close> the
  files that the engine found for the glob \<open>*.toml\<close>, \<open>all_owned_sources\<close> the files
  owned by existing targets. The debug log of the unowned files has no effect on the
  result and is left out.
\<close>

definition unowned_toml_files :: "string list \<Rightarrow> string list \<Rightarrow> string set" where
  "unowned_toml_files all_toml_files all_owned_sources =
     set all_toml_files - set all_owned_sources"

definition find_putative_targets ::
  "set_order \<Rightarrow> string list \<Rightarrow> bool \<Rightarrow> string list \<Rightarrow> string list \<Rightarrow> error + PutativeTarget list"
  where
  "find_putative_targets iter common tailor all_toml_files all_owned_sources =
     (if \<not> tailor then Inr (PutativeTargets [])
      else
        (case collect_targets common
                (iter (unowned_toml_files all_toml_files all_owned_sources)) [] of
           Inl e \<Rightarrow> Inl e
         | Inr pts \<Rightarrow> Inr (PutativeTargets pts)))"

text \<open>
  The grouping that the data model describes: the unowned files grouped by their parent
  directory, one group per directory. It is \<open>group_by_dir\<close> applied to the whole set.
\<close>

definition directory_groups :: "set_order \<Rightarrow> string list \<Rightarrow> string list \<Rightarrow> (string \<times> string list) list"
  where
  "directory_groups iter all_toml_files all_owned_sources =
     group_by_dir (iter (unowned_toml_files all_toml_files all_owned_sources))"

section \<open>The formatter subsystem (\<open>taplo_fmt.py\<close>)\<close>

datatype Platform = linux_arm64 | linux_x86_64 | macos_arm64 | macos_x86_64

fun platform_value :: "Platform \<Rightarrow> string" where
  "platform_value linux_arm64 = ''linux_arm64''"
| "platform_value linux_x86_64 = ''linux_x86_64''"
| "platform_value macos_arm64 = ''macos_arm64''"
| "platform_value macos_x86_64 = ''macos_x86_64''"

text \<open>The options of the subsystem \<open>Taplo\<close>, and their declared defaults.\<close>

record Taplo =
  version :: string
  url_template :: string
  url_platform_mapping :: "(string \<times> string) list"
  skip :: bool
  args :: "string list"
  config_discovery :: bool

definition default_version :: string where
  "default_version = ''0.8.0''"

definition default_url_template :: string where
  "default_url_template =
     ''https://github.com/tamasfe/taplo/releases/download/{version}/taplo-{platform}.gz''"

definition default_url_platform_mapping :: "(string \<times> string) list" where
  "default_url_platform_mapping =
     [(''macos_arm64'', ''darwin-aarch64''),
      (''macos_x86_64'', ''darwin-x86_64''),
      (''linux_arm64'', ''linux-aarch64''),
      (''linux_x86_64'', ''linux-x86_64'')]"

definition default_Taplo :: Taplo where
  "default_Taplo =
     \<lparr>version = default_version, url_template = default_url_template,
      url_platform_mapping = default_url_platform_mapping,
      skip = False, args = [], config_discovery = True\<rparr>"

text \<open>
  \<open>generate_url\<close> of \<open>TemplatedExternalTool\<close> (host library):
  \<^verbatim>\<open>
  platform = self.url_platform_mapping.get(plat.value, "")
  return self.url_template.format(version=self.version, platform=platform)
  \<close>
\<close>

definition generate_url :: "Taplo \<Rightarrow> Platform \<Rightarrow> error + string" where
  "generate_url taplo plat =
     (let platform =
            (case map_of (url_platform_mapping taplo) (platform_value plat) of
               None \<Rightarrow> [] | Some v \<Rightarrow> v)
      in str_format [''version'' \<mapsto> version taplo, ''platform'' \<mapsto> platform]
           (url_template taplo))"

definition generate_exe :: "Taplo \<Rightarrow> Platform \<Rightarrow> error + string" where
  "generate_exe taplo plat =
     (case generate_url taplo plat of
        Inl e \<Rightarrow> Inl e
      | Inr url \<Rightarrow> Inr (''./'' @ removesuffix ''.gz'' (last (rsplit1 url))))"

text \<open>
  \<open>ConfigFilesRequest\<close> of \<open>pants.core.util_rules.config_files\<close> (host library), with
  the two attributes that \<open>config_request\<close> sets. Its constructor does not keep the
  paths as they are given: it stores \<open>tuple(sorted(check_existence))\<close>.
\<close>

record ConfigFilesRequest =
  discovery :: bool
  check_existence :: "string list"

definition ConfigFilesRequest_init :: "bool \<Rightarrow> string list \<Rightarrow> ConfigFilesRequest" where
  "ConfigFilesRequest_init discovery_arg check_existence_arg =
     \<lparr>discovery = discovery_arg, check_existence = sort check_existence_arg\<rparr>"

definition config_request :: "Taplo \<Rightarrow> string list \<Rightarrow> ConfigFilesRequest" where
  "config_request taplo ds =
     (let candidates = map (\<lambda>d. path_join d ''.taplo.toml'') ([] # ds);
          candidates' = candidates @ map (\<lambda>d. path_join d ''taplo.toml'') ([] # ds)
      in ConfigFilesRequest_init (config_discovery taplo) candidates')"

definition pyproject_checker :: "set_order \<Rightarrow> string list \<Rightarrow> string list" where
  "pyproject_checker iter filepaths =
     (let paths = set filepaths in filter (py_in ''pyproject.toml'') (iter paths))"

text \<open>
  A boolean field with its alias and default. A target is given by the values written
  for its boolean fields in the BUILD file; \<open>tgt.get(field).value\<close> is the written value,
  or the default of the field when none is written.
\<close>

record BoolField =
  field_alias :: string
  field_default :: bool

definition SkipTaploField :: BoolField where
  "SkipTaploField = \<lparr>field_alias = ''skip_taplo'', field_default = False\<rparr>"

type_synonym Target = "string \<rightharpoonup> bool"

definition target_get_value :: "Target \<Rightarrow> BoolField \<Rightarrow> bool" where
  "target_get_value tgt f = (case tgt (field_alias f) of None \<Rightarrow> field_default f | Some v \<Rightarrow> v)"

definition opt_out :: "Target \<Rightarrow> bool" where
  "opt_out tgt = target_get_value tgt SkipTaploField"

text \<open>
  The batch handed to a formatting rule, the results of the engine requests that the
  rule awaits, and the process it builds. The engine is a collaborator: it resolves the
  download of the tool for a platform, the configuration files of a request, and the
  merge of digests.
\<close>

type_synonym Digest = "string \<times> nat"

record Snapshot =
  snapshot_digest :: Digest
  dirs :: "string list"

record Batch =
  files :: "string list"
  snapshot :: Snapshot

record DownloadedExternalTool =
  tool_digest :: Digest
  exe :: string

record Process =
  argv :: "string list"
  input_digest :: Digest
  output_files :: "string list"
  description :: string

record Engine =
  get_downloaded_tool :: "Taplo \<Rightarrow> Platform \<Rightarrow> DownloadedExternalTool"
  get_config_files :: "ConfigFilesRequest \<Rightarrow> Snapshot"
  merge_digests :: "Digest list \<Rightarrow> Digest"

definition taplo_fmt :: "Engine \<Rightarrow> Batch \<Rightarrow> Taplo \<Rightarrow> Platform \<Rightarrow> Process" where
  "taplo_fmt engine request taplo platform =
     (let downloaded_taplo = get_downloaded_tool engine taplo platform;
          config_digest = get_config_files engine (config_request taplo (dirs (snapshot request)));
          merged =
            merge_digests engine
              [snapshot_digest (snapshot request), tool_digest downloaded_taplo,
               snapshot_digest config_digest];
          arguments = [exe downloaded_taplo, ''fmt''] @ args taplo @ files request
      in \<lparr>argv = arguments, input_digest = merged, output_files = files request,
          description = ''Run taplo on '' @ pluralize (length (files request)) ''file'' @ ''.''\<rparr>)"

datatype Partition = Partition (elements: "string list") (metadata: "string option")

definition partition_pyprojects :: "set_order \<Rightarrow> Taplo \<Rightarrow> string list \<Rightarrow> Partition list" where
  "partition_pyprojects iter taplo request_files =
     (if skip taplo then []
      else [Partition (sort (pyproject_checker iter request_files)) None])"

definition pyproject_toml_fmt :: "Engine \<Rightarrow> Batch \<Rightarrow> Taplo \<Rightarrow> Platform \<Rightarrow> Process" where
  "pyproject_toml_fmt engine request taplo platform =
     (let downloaded_taplo = get_downloaded_tool engine taplo platform;
          config_digest = get_config_files engine (config_request taplo (dirs (snapshot request)));
          merged =
            merge_digests engine
              [snapshot_digest (snapshot request), tool_digest downloaded_taplo,
               snapshot_digest config_digest];
          arguments = [exe downloaded_taplo, ''fmt''] @ args taplo @ files request
      in \<lparr>argv = arguments, input_digest = merged, output_files = files request,
          description = ''Run taplo on '' @ pluralize (length (files request)) ''file'' @ ''.''\<rparr>)"

section \<open>Properties of discovery\<close>

lemma default_sources_common:
  "default_sources_for_target_type (COMMON_TARGET_FIELDS common @ fs) = default_sources_for_target_type fs"
  by (induction common) (simp_all add: COMMON_TARGET_FIELDS_def)

lemma for_target_type_generator:
  "for_target_type (TomlSourcesGeneratorTarget common) d None (sort fs) = Inr (proposed_target (d, fs))"
  by (simp add: for_target_type_def TomlSourcesGeneratorTarget_def default_sources_common
      TomlSourcesGeneratingSourcesField_def proposed_target_def)

lemma append_targets_eq:
  "append_targets common items pts = Inr (pts @ map proposed_target items)"
  by (induction items arbitrary: pts) (auto simp: for_target_type_generator)

lemma collect_targets_eq:
  "collect_targets common xs pts =
     Inr (pts @ concat (map (\<lambda>p. map proposed_target (group_by_dir (iter_str p))) xs))"
  by (induction xs arbitrary: pts) (simp_all add: append_targets_eq)

lemma inj_astuple: "inj astuple"
  by (rule injI) (simp add: astuple_def)

lemma sorted_map_remdups:
  "inj k \<Longrightarrow> sorted (map k xs) \<Longrightarrow> sorted (map k (remdups xs))"
  by (induction xs) (auto)

lemma sorted_distinct_key_unique:
  assumes "inj k" "sorted (map k xs)" "distinct xs" "sorted (map k ys)" "distinct ys" "set xs = set ys"
  shows "xs = ys"
proof -
  have "distinct (map k xs)" "distinct (map k ys)"
    using assms by (simp_all add: distinct_map inj_on_subset[OF \<open>inj k\<close>])
  moreover have "set (map k xs) = set (map k ys)" using assms by simp
  ultimately have "map k xs = map k ys"
    using assms by (metis sorted_distinct_set_unique)
  then show ?thesis using \<open>inj k\<close> by (simp add: inj_map_eq_map)
qed

lemma PutativeTargets_set_cong:
  assumes "set xs = set ys"
  shows "PutativeTargets xs = PutativeTargets ys"
  unfolding PutativeTargets_def
  by (rule sorted_distinct_key_unique[OF inj_astuple])
     (simp_all add: sorted_map_remdups[OF inj_astuple] assms)

lemma set_iterationD: "set_iteration iter \<Longrightarrow> finite S \<Longrightarrow> set (iter S) = S"
  by (simp add: set_iteration_def)

lemma finite_unowned: "finite (unowned_toml_files cs os)"
  by (simp add: unowned_toml_files_def)

lemma find_putative_targets_eq:
  "find_putative_targets iter common tailor cs os =
     Inr (if tailor
          then PutativeTargets (concat (map (\<lambda>p. map proposed_target (group_by_dir (iter_str p)))
                 (iter (unowned_toml_files cs os))))
          else [])"
  by (simp add: find_putative_targets_def collect_targets_eq PutativeTargets_def)

lemma triggering_sorted:
  assumes "pt \<in> set (PutativeTargets (concat (map (\<lambda>p. map proposed_target (group_by_dir (iter_str p))) xs)))"
  shows "sorted (triggering_sources pt)"
proof -
  from assms obtain item where "pt = proposed_target item"
    by (auto simp: PutativeTargets_def)
  then show ?thesis by (simp add: proposed_target_def)
qed

lemma PutativeTargets_sorted_distinct:
  "sorted (map astuple (PutativeTargets pts)) \<and> distinct (PutativeTargets pts)"
  by (simp add: PutativeTargets_def sorted_map_remdups[OF inj_astuple])

lemma singleton_list: "set xs = {x} \<Longrightarrow> distinct xs \<Longrightarrow> xs = [x]"
proof (cases xs)
  case Nil
  assume "set xs = {x}"
  with Nil show ?thesis by simp
next
  case (Cons a ys)
  assume s: "set xs = {x}" and d: "distinct xs"
  from s Cons have "a = x" by auto
  moreover from s d Cons have "set ys \<subseteq> {x}" "x \<notin> set ys" by auto
  then have "ys = []" by (cases ys) auto
  ultimately show ?thesis using Cons by simp
qed

lemma find_putative_targets_any_order:
  assumes "set_iteration iter"
  shows "find_putative_targets iter common tailor cs os =
     Inr (if tailor
          then PutativeTargets (concat (map (\<lambda>p. map proposed_target (group_by_dir (iter_str p)))
                 (sorted_list_of_set (unowned_toml_files cs os))))
          else [])"
proof -
  let ?props = "\<lambda>p. map proposed_target (group_by_dir (iter_str p))"
  have "set (iter (unowned_toml_files cs os)) = set (sorted_list_of_set (unowned_toml_files cs os))"
    using assms by (simp add: set_iterationD finite_unowned)
  then have "set (concat (map ?props (iter (unowned_toml_files cs os))))
           = set (concat (map ?props (sorted_list_of_set (unowned_toml_files cs os))))"
    by simp
  then have "PutativeTargets (concat (map ?props (iter (unowned_toml_files cs os))))
           = PutativeTargets (concat (map ?props (sorted_list_of_set (unowned_toml_files cs os))))"
    by (rule PutativeTargets_set_cong)
  then show ?thesis
    by (simp add: find_putative_targets_eq)
qed

text \<open>
  Claim C3. Discovery is deterministic: the proposals depend on the set of candidate
  files and the set of owned files only, not on the order in which the set of unowned
  files is iterated, so two runs on the same files propose the same targets. No state
  is read or kept between runs (the function has no other argument). Every proposal
  lists its triggering file names in sorted order, and the collection itself is sorted
  and free of duplicates.
\<close>

theorem discovery_deterministic:
  assumes "set_iteration iter1" and "set_iteration iter2"
    and "set cs1 = set cs2" and "set os1 = set os2"
  shows "find_putative_targets iter1 common tailor cs1 os1 =
           find_putative_targets iter2 common tailor cs2 os2
         \<and> (\<exists>pts. find_putative_targets iter1 common tailor cs1 os1 = Inr pts
                \<and> (\<forall>pt \<in> set pts. sorted (triggering_sources pt))
                \<and> sorted (map astuple pts) \<and> distinct pts)"
proof -
  let ?props = "\<lambda>p. map proposed_target (group_by_dir (iter_str p))"
  have u: "unowned_toml_files cs1 os1 = unowned_toml_files cs2 os2"
    using assms(3,4) by (simp add: unowned_toml_files_def)
  have "set (iter1 (unowned_toml_files cs1 os1)) = set (iter2 (unowned_toml_files cs2 os2))"
    using assms(1,2) u by (simp add: set_iterationD finite_unowned)
  then have "set (concat (map ?props (iter1 (unowned_toml_files cs1 os1))))
           = set (concat (map ?props (iter2 (unowned_toml_files cs2 os2))))"
    by simp
  then have "PutativeTargets (concat (map ?props (iter1 (unowned_toml_files cs1 os1))))
           = PutativeTargets (concat (map ?props (iter2 (unowned_toml_files cs2 os2))))"
    by (rule PutativeTargets_set_cong)
  then have same: "find_putative_targets iter1 common tailor cs1 os1 =
           find_putative_targets iter2 common tailor cs2 os2"
    by (simp add: find_putative_targets_eq)
  have "\<forall>pt \<in> set (PutativeTargets (concat (map ?props (iter1 (unowned_toml_files cs1 os1))))).
          sorted (triggering_sources pt)"
    using triggering_sorted by blast
  then have "\<exists>pts. find_putative_targets iter1 common tailor cs1 os1 = Inr pts
                \<and> (\<forall>pt \<in> set pts. sorted (triggering_sources pt))
                \<and> sorted (map astuple pts) \<and> distinct pts"
    by (cases tailor) (simp_all add: find_putative_targets_eq PutativeTargets_sorted_distinct)
  with same show ?thesis by blast
qed

theorem discovery_deterministic_witness:
  "set_iteration sorted_list_of_set
   \<and> set_iteration (\<lambda>S. rev (sorted_list_of_set S))
   \<and> set [''a/y.toml'', ''b/z.toml'', ''a/x.toml''] = set [''a/x.toml'', ''a/y.toml'', ''b/z.toml'', ''a/y.toml'']
   \<and> set [''a/x.toml''] = set [''a/x.toml'', ''a/x.toml'']
   \<and> find_putative_targets sorted_list_of_set [''tags'', ''description''] True
        [''a/y.toml'', ''b/z.toml'', ''a/x.toml''] [''a/x.toml'']
     = find_putative_targets (\<lambda>S. rev (sorted_list_of_set S)) [''tags'', ''description''] True
        [''a/x.toml'', ''a/y.toml'', ''b/z.toml'', ''a/y.toml''] [''a/x.toml'', ''a/x.toml'']"
proof -
  have h1: "set_iteration sorted_list_of_set"
    by (simp add: set_iteration_def)
  have h2: "set_iteration (\<lambda>S. rev (sorted_list_of_set S))"
    by (simp add: set_iteration_def)
  have h3: "set [''a/y.toml'', ''b/z.toml'', ''a/x.toml'']
          = set [''a/x.toml'', ''a/y.toml'', ''b/z.toml'', ''a/y.toml'']"
    by auto
  have h4: "set [''a/x.toml''] = set [''a/x.toml'', ''a/x.toml'']"
    by simp
  show ?thesis
    using discovery_deterministic [OF h1 h2 h3 h4, of "[''tags'', ''description'']" True] h1 h2 h3 h4
    by blast
qed

text \<open>
  Claim C4. When every candidate file is already owned, discovery proposes nothing; in
  particular for one owned file in a directory, and for no files at all.
\<close>

theorem owned_files_yield_no_proposal:
  assumes "set_iteration iter" and "set cs \<subseteq> set os"
  shows "find_putative_targets iter common tailor cs os = Inr []"
proof -
  have "unowned_toml_files cs os = {}"
    using assms(2) by (simp add: unowned_toml_files_def)
  moreover have "set (iter {}) = {}"
    using assms(1) by (simp add: set_iterationD)
  ultimately show ?thesis
    by (simp add: find_putative_targets_eq PutativeTargets_def)
qed

theorem owned_files_yield_no_proposal_witness:
  "set_iteration sorted_list_of_set
   \<and> set [''a/x.toml''] \<subseteq> set [''a/x.toml'']
   \<and> find_putative_targets sorted_list_of_set [''tags'', ''description''] True [''a/x.toml''] [''a/x.toml'']
       = Inr []
   \<and> set ([] :: string list) \<subseteq> set []
   \<and> find_putative_targets sorted_list_of_set [''tags'', ''description''] True [] [] = Inr []"
proof -
  have h1: "set_iteration sorted_list_of_set"
    by (simp add: set_iteration_def)
  have h2: "set [''a/x.toml''] \<subseteq> set [''a/x.toml'']"
    by simp
  have h3: "set ([] :: string list) \<subseteq> set []"
    by simp
  show ?thesis
    using owned_files_yield_no_proposal [OF h1 h2, of "[''tags'', ''description'']" True]
      owned_files_yield_no_proposal [OF h1 h3, of "[''tags'', ''description'']" True] h1 h2
    by simp
qed

text \<open>
  Claim C5. With the tailor option off, discovery returns the empty collection,
  whatever the files are; and with the option on or off it returns a collection, never
  an error.
\<close>

theorem disabled_tailor_yields_nothing_and_no_error:
  "find_putative_targets iter common False cs os = Inr []
   \<and> (\<exists>pts. find_putative_targets iter common tailor cs os = Inr pts)"
  by (simp add: find_putative_targets_eq PutativeTargets_def)

text \<open>
  Claim C2. The scenario of the specification: candidates \<open>a/x.toml\<close>, \<open>a/y.toml\<close>,
  \<open>b/z.toml\<close>, of which \<open>a/x.toml\<close> is owned. The specification expects two proposals,
  directory \<open>a\<close> with \<open>y.toml\<close> and directory \<open>b\<close> with \<open>z.toml\<close>. Under every
  iteration order the code returns three: two for the empty directory, listing the
  characters of each unowned path, and one for the directory \<open>/\<close> with an empty file
  name.
\<close>

theorem scenario_proposals_are_per_character:
  assumes "set_iteration iter"
  shows "find_putative_targets iter common True
     [''a/x.toml'', ''a/y.toml'', ''b/z.toml''] [''a/x.toml'']
   = Inr [\<lparr>path = [], name = [], type_alias_str = ''toml_sources'',
           triggering_sources = [''.'', ''a'', ''l'', ''m'', ''o'', ''t'', ''y''],
           owned_sources = [''*.toml'']\<rparr>,
          \<lparr>path = [], name = [], type_alias_str = ''toml_sources'',
           triggering_sources = [''.'', ''b'', ''l'', ''m'', ''o'', ''t'', ''z''],
           owned_sources = [''*.toml'']\<rparr>,
          \<lparr>path = ''/'', name = [], type_alias_str = ''toml_sources'',
           triggering_sources = [[]], owned_sources = [''*.toml'']\<rparr>]"
proof -
  have "PutativeTargets (concat (map (\<lambda>p. map proposed_target (group_by_dir (iter_str p)))
          (sorted_list_of_set
            (unowned_toml_files [''a/x.toml'', ''a/y.toml'', ''b/z.toml''] [''a/x.toml'']))))
      = [\<lparr>path = [], name = [], type_alias_str = ''toml_sources'',
           triggering_sources = [''.'', ''a'', ''l'', ''m'', ''o'', ''t'', ''y''],
           owned_sources = [''*.toml'']\<rparr>,
          \<lparr>path = [], name = [], type_alias_str = ''toml_sources'',
           triggering_sources = [''.'', ''b'', ''l'', ''m'', ''o'', ''t'', ''z''],
           owned_sources = [''*.toml'']\<rparr>,
          \<lparr>path = ''/'', name = [], type_alias_str = ''toml_sources'',
           triggering_sources = [[]], owned_sources = [''*.toml'']\<rparr>]"
    by code_simp
  then show ?thesis
    by (simp add: find_putative_targets_any_order[OF assms])
qed

theorem scenario_proposals_are_per_character_witness:
  "set_iteration (\<lambda>S. rev (sorted_list_of_set S))
   \<and> find_putative_targets (\<lambda>S. rev (sorted_list_of_set S)) [''tags'', ''description''] True
     [''a/x.toml'', ''a/y.toml'', ''b/z.toml''] [''a/x.toml'']
   = Inr [\<lparr>path = [], name = [], type_alias_str = ''toml_sources'',
           triggering_sources = [''.'', ''a'', ''l'', ''m'', ''o'', ''t'', ''y''],
           owned_sources = [''*.toml'']\<rparr>,
          \<lparr>path = [], name = [], type_alias_str = ''toml_sources'',
           triggering_sources = [''.'', ''b'', ''l'', ''m'', ''o'', ''t'', ''z''],
           owned_sources = [''*.toml'']\<rparr>,
          \<lparr>path = ''/'', name = [], type_alias_str = ''toml_sources'',
           triggering_sources = [[]], owned_sources = [''*.toml'']\<rparr>]"
proof -
  have h: "set_iteration (\<lambda>S. rev (sorted_list_of_set S))"
    by (simp add: set_iteration_def)
  show ?thesis
    using scenario_proposals_are_per_character [OF h, of "[''tags'', ''description'']"] h
    by simp
qed

text \<open>
  Claim C1. The unowned files are the candidates that are not owned, as the
  specification says. They are not grouped by their parent directory, though: for the
  single unowned file \<open>d/f.toml\<close>, grouping the set by directory gives the group \<open>d\<close>
  with \<open>f.toml\<close>, while the code groups the characters of the path and proposes a
  target for the empty directory and one for \<open>/\<close>.
\<close>

theorem unowned_file_grouped_by_character:
  assumes "set_iteration iter"
  shows "unowned_toml_files [''d/f.toml''] [] = {''d/f.toml''}
   \<and> directory_groups iter [''d/f.toml''] [] = [(''d'', [''f.toml''])]
   \<and> find_putative_targets iter common True [''d/f.toml''] []
     = Inr [\<lparr>path = [], name = [], type_alias_str = ''toml_sources'',
             triggering_sources = [''.'', ''d'', ''f'', ''l'', ''m'', ''o'', ''t''],
             owned_sources = [''*.toml'']\<rparr>,
            \<lparr>path = ''/'', name = [], type_alias_str = ''toml_sources'',
             triggering_sources = [[]], owned_sources = [''*.toml'']\<rparr>]"
proof -
  have u: "unowned_toml_files [''d/f.toml''] [] = {''d/f.toml''}"
    by (simp add: unowned_toml_files_def)
  have "set (iter {''d/f.toml''}) = {''d/f.toml''}" "distinct (iter {''d/f.toml''})"
    using assms by (simp_all add: set_iteration_def)
  then have i: "iter {''d/f.toml''} = [''d/f.toml'']"
    by (rule singleton_list)
  have g: "group_by_dir [''d/f.toml''] = [(''d'', [''f.toml''])]"
    by code_simp
  have "PutativeTargets (concat (map (\<lambda>p. map proposed_target (group_by_dir (iter_str p)))
          (sorted_list_of_set (unowned_toml_files [''d/f.toml''] []))))
      = [\<lparr>path = [], name = [], type_alias_str = ''toml_sources'',
             triggering_sources = [''.'', ''d'', ''f'', ''l'', ''m'', ''o'', ''t''],
             owned_sources = [''*.toml'']\<rparr>,
            \<lparr>path = ''/'', name = [], type_alias_str = ''toml_sources'',
             triggering_sources = [[]], owned_sources = [''*.toml'']\<rparr>]"
    by code_simp
  then show ?thesis
    using u i g by (simp add: find_putative_targets_any_order[OF assms] directory_groups_def)
qed

theorem unowned_file_grouped_by_character_witness:
  "set_iteration sorted_list_of_set
   \<and> directory_groups sorted_list_of_set [''d/f.toml''] [] = [(''d'', [''f.toml''])]
   \<and> find_putative_targets sorted_list_of_set [''tags'', ''description''] True [''d/f.toml''] []
     = Inr [\<lparr>path = [], name = [], type_alias_str = ''toml_sources'',
             triggering_sources = [''.'', ''d'', ''f'', ''l'', ''m'', ''o'', ''t''],
             owned_sources = [''*.toml'']\<rparr>,
            \<lparr>path = ''/'', name = [], type_alias_str = ''toml_sources'',
             triggering_sources = [[]], owned_sources = [''*.toml'']\<rparr>]"
proof -
  have h: "set_iteration sorted_list_of_set"
    by (simp add: set_iteration_def)
  show ?thesis
    using unowned_file_grouped_by_character [OF h, of "[''tags'', ''description'']"] h
    by simp
qed

section \<open>Properties of the formatter subsystem\<close>

lemma takeWhile_no_slash:
  "CHR ''/'' \<notin> set s \<Longrightarrow> takeWhile (\<lambda>c. c \<noteq> CHR ''/'') (rev s) = rev s"
  by (simp add: takeWhile_eq_all_conv) metis

lemma drop_rfind_plus1: "drop (rfind_plus1 s) s = final_segment s"
proof -
  let ?t = "takeWhile (\<lambda>c. c \<noteq> CHR ''/'') (rev s)"
  let ?d = "dropWhile (\<lambda>c. c \<noteq> CHR ''/'') (rev s)"
  have "rev s = ?t @ ?d" by simp
  then have "s = rev ?d @ rev ?t" by (metis rev_append rev_rev_ident)
  moreover have "length s - length ?t = length (rev ?d)"
    by (metis \<open>rev s = ?t @ ?d\<close> add_diff_cancel_left' length_append length_rev)
  ultimately show ?thesis
    unfolding rfind_plus1_def final_segment_def
    by (metis append_eq_conv_conj)
qed

lemma last_rsplit1: "last (rsplit1 s) = final_segment s"
proof (cases "CHR ''/'' \<in> set s")
  case True
  then show ?thesis by (simp add: rsplit1_def drop_rfind_plus1)
next
  case False
  then show ?thesis by (simp add: rsplit1_def final_segment_def takeWhile_no_slash)
qed

lemma final_segment_append:
  "CHR ''/'' \<notin> set seg \<Longrightarrow> final_segment (pre @ CHR ''/'' # seg) = seg"
  by (simp add: final_segment_def takeWhile_tail takeWhile_no_slash)

lemma final_segment_no_slash: "CHR ''/'' \<notin> set (final_segment s)"
  unfolding final_segment_def by (auto dest: set_takeWhileD)

lemma final_segment_decompose:
  "\<exists>pre. s = pre @ final_segment s \<and> (pre = [] \<or> last pre = CHR ''/'')"
proof -
  let ?t = "takeWhile (\<lambda>c. c \<noteq> CHR ''/'') (rev s)"
  let ?d = "dropWhile (\<lambda>c. c \<noteq> CHR ''/'') (rev s)"
  have "rev s = ?t @ ?d" by simp
  then have s: "s = rev ?d @ final_segment s"
    unfolding final_segment_def by (metis rev_append rev_rev_ident)
  have "?d = [] \<or> hd ?d = CHR ''/''"
    using hd_dropWhile[of "\<lambda>c. c \<noteq> CHR ''/''" "rev s"] by auto
  then have "rev ?d = [] \<or> last (rev ?d) = CHR ''/''"
    by (auto simp: last_rev)
  with s show ?thesis by blast
qed

lemma default_template_format:
  "str_format [''version'' \<mapsto> v, ''platform'' \<mapsto> m] default_url_template
     = Inr (''https://github.com/tamasfe/taplo/releases/download/'' @ v @ ''/taplo-'' @ m @ ''.gz'')"
  by (simp add: default_url_template_def)

lemma removesuffix_append: "suf \<noteq> [] \<Longrightarrow> removesuffix suf (s @ suf) = s"
  by (simp add: removesuffix_def suffix_def)

lemma generate_exe_default_template:
  assumes "url_template taplo = default_url_template"
    and "m = (case map_of (url_platform_mapping taplo) (platform_value plat) of None \<Rightarrow> [] | Some v \<Rightarrow> v)"
    and "CHR ''/'' \<notin> set m"
  shows "generate_exe taplo plat = Inr (''./taplo-'' @ m)"
proof -
  let ?pre = "''https://github.com/tamasfe/taplo/releases/download/'' @ version taplo"
  have url: "generate_url taplo plat = Inr (?pre @ CHR ''/'' # (''taplo-'' @ m @ ''.gz''))"
    using assms(1,2) default_template_format[of "version taplo" m]
    by (simp add: generate_url_def)
  have "final_segment (?pre @ CHR ''/'' # (''taplo-'' @ m @ ''.gz'')) = ''taplo-'' @ m @ ''.gz''"
    using assms(3) by (intro final_segment_append) simp
  moreover have "removesuffix ''.gz'' (''taplo-'' @ m @ ''.gz'') = ''taplo-'' @ m"
    using removesuffix_append[of "''.gz''" "''taplo-'' @ m"] by simp
  ultimately show ?thesis
    unfolding generate_exe_def url by (simp add: last_rsplit1)
qed

text \<open>
  Claim C10. Whenever the download URL can be generated, the executable path is \<open>./\<close>
  followed by the final segment of the URL (what follows its last slash) without a
  trailing \<open>.gz\<close>; when the URL cannot be generated, the same error is raised. With the
  default URL template the path is \<open>./taplo-\<close> followed by the mapped platform name,
  provided that name has no slash; with the default platform mapping this gives the
  four paths listed.
\<close>

theorem generate_exe_is_final_segment:
  "(\<forall>url. generate_url taplo plat = Inr url \<longrightarrow>
      generate_exe taplo plat = Inr (''./'' @ removesuffix ''.gz'' (final_segment url))
      \<and> CHR ''/'' \<notin> set (final_segment url)
      \<and> (\<exists>pre. url = pre @ final_segment url \<and> (pre = [] \<or> last pre = CHR ''/'')))
   \<and> (\<forall>e. generate_url taplo plat = Inl e \<longrightarrow> generate_exe taplo plat = Inl e)
   \<and> (url_template taplo = default_url_template
        \<and> CHR ''/'' \<notin> set (case map_of (url_platform_mapping taplo) (platform_value plat) of
                              None \<Rightarrow> [] | Some v \<Rightarrow> v) \<longrightarrow>
      generate_exe taplo plat =
        Inr (''./taplo-'' @
             (case map_of (url_platform_mapping taplo) (platform_value plat) of
                None \<Rightarrow> [] | Some v \<Rightarrow> v)))
   \<and> (url_template taplo = default_url_template
        \<and> url_platform_mapping taplo = default_url_platform_mapping \<longrightarrow>
      generate_exe taplo plat =
        Inr (''./taplo-'' @
             (case plat of
                linux_arm64 \<Rightarrow> ''linux-aarch64''
              | linux_x86_64 \<Rightarrow> ''linux-x86_64''
              | macos_arm64 \<Rightarrow> ''darwin-aarch64''
              | macos_x86_64 \<Rightarrow> ''darwin-x86_64'')))"
proof (intro conjI allI impI)
  fix url assume "generate_url taplo plat = Inr url"
  then show "generate_exe taplo plat = Inr (''./'' @ removesuffix ''.gz'' (final_segment url))"
    by (simp add: generate_exe_def last_rsplit1)
next
  fix url show "CHR ''/'' \<notin> set (final_segment url)"
    by (rule final_segment_no_slash)
next
  fix url show "\<exists>pre. url = pre @ final_segment url \<and> (pre = [] \<or> last pre = CHR ''/'')"
    by (rule final_segment_decompose)
next
  fix e assume "generate_url taplo plat = Inl e"
  then show "generate_exe taplo plat = Inl e"
    by (simp add: generate_exe_def)
next
  assume "url_template taplo = default_url_template
        \<and> CHR ''/'' \<notin> set (case map_of (url_platform_mapping taplo) (platform_value plat) of
                              None \<Rightarrow> [] | Some v \<Rightarrow> v)"
  then show "generate_exe taplo plat =
        Inr (''./taplo-'' @
             (case map_of (url_platform_mapping taplo) (platform_value plat) of
                None \<Rightarrow> [] | Some v \<Rightarrow> v))"
    by (intro generate_exe_default_template) simp_all
next
  assume a: "url_template taplo = default_url_template
        \<and> url_platform_mapping taplo = default_url_platform_mapping"
  show "generate_exe taplo plat =
        Inr (''./taplo-'' @
             (case plat of
                linux_arm64 \<Rightarrow> ''linux-aarch64''
              | linux_x86_64 \<Rightarrow> ''linux-x86_64''
              | macos_arm64 \<Rightarrow> ''darwin-aarch64''
              | macos_x86_64 \<Rightarrow> ''darwin-x86_64''))"
    using a
    by (cases plat; intro generate_exe_default_template)
       (simp_all add: default_url_platform_mapping_def)
qed

theorem generate_exe_is_final_segment_witness:
  "generate_url default_Taplo linux_x86_64
     = Inr ''https://github.com/tamasfe/taplo/releases/download/0.8.0/taplo-linux-x86_64.gz''
   \<and> final_segment ''https://github.com/tamasfe/taplo/releases/download/0.8.0/taplo-linux-x86_64.gz''
       = ''taplo-linux-x86_64.gz''
   \<and> generate_exe default_Taplo linux_x86_64 = Inr ''./taplo-linux-x86_64''
   \<and> generate_url (default_Taplo\<lparr>url_template := ''{arch}''\<rparr>) macos_arm64 = Inl (KeyError ''arch'')
   \<and> generate_exe (default_Taplo\<lparr>url_template := ''{arch}''\<rparr>) macos_arm64 = Inl (KeyError ''arch'')
   \<and> url_template default_Taplo = default_url_template
   \<and> url_platform_mapping default_Taplo = default_url_platform_mapping"
proof -
  have u: "generate_url default_Taplo linux_x86_64
     = Inr ''https://github.com/tamasfe/taplo/releases/download/0.8.0/taplo-linux-x86_64.gz''"
    by (simp add: generate_url_def default_Taplo_def default_url_template_def
        default_version_def default_url_platform_mapping_def)
  have e: "generate_url (default_Taplo\<lparr>url_template := ''{arch}''\<rparr>) macos_arm64 = Inl (KeyError ''arch'')"
    by (simp add: generate_url_def default_Taplo_def default_url_platform_mapping_def)
  have d: "url_template default_Taplo = default_url_template
        \<and> url_platform_mapping default_Taplo = default_url_platform_mapping"
    by (simp add: default_Taplo_def)
  have f: "final_segment ''https://github.com/tamasfe/taplo/releases/download/0.8.0/taplo-linux-x86_64.gz''
       = ''taplo-linux-x86_64.gz''"
    by (simp add: final_segment_def)
  show ?thesis
    using generate_exe_is_final_segment [of default_Taplo linux_x86_64]
      generate_exe_is_final_segment [of "default_Taplo\<lparr>url_template := ''{arch}''\<rparr>" macos_arm64]
      u e d f
    by (simp add: removesuffix_def suffix_to_prefix)
qed

lemma suffix_slash: "suffix ''/'' d \<longleftrightarrow> d \<noteq> [] \<and> last d = CHR ''/''"
  by (cases d rule: rev_cases) (simp_all add: suffix_def)

lemma path_join_name:
  "\<not> prefix ''/'' n \<Longrightarrow> d \<noteq> [] \<Longrightarrow> last d \<noteq> CHR ''/'' \<Longrightarrow> path_join d n = d @ ''/'' @ n"
  by (simp add: path_join_def suffix_slash)

text \<open>
  Claim C6. In both formatting rules the argument vector of the process is the
  executable of the downloaded tool, then \<open>fmt\<close>, then the extra arguments of the
  subsystem in their order, then the files of the batch; and the declared output files
  are the files of the batch.
\<close>

theorem format_process_argv_and_outputs:
  "argv (taplo_fmt engine request taplo platform)
     = exe (get_downloaded_tool engine taplo platform) # ''fmt'' # args taplo @ files request
   \<and> output_files (taplo_fmt engine request taplo platform) = files request
   \<and> argv (pyproject_toml_fmt engine request taplo platform)
     = exe (get_downloaded_tool engine taplo platform) # ''fmt'' # args taplo @ files request
   \<and> output_files (pyproject_toml_fmt engine request taplo platform) = files request"
  by (simp add: taplo_fmt_def pyproject_toml_fmt_def Let_def)

text \<open>
  Claim C7. With the skip option set the partitioner of \<open>pyproject.toml\<close> files returns
  no partition. Otherwise it returns one partition, without metadata, whose elements
  are sorted, free of duplicates, and are exactly the input paths that contain
  \<open>pyproject.toml\<close> as a substring.
\<close>

theorem partition_pyprojects_elements:
  assumes "set_iteration iter"
  shows "(skip taplo \<longrightarrow> partition_pyprojects iter taplo fs = [])
       \<and> (\<not> skip taplo \<longrightarrow>
            (\<exists>es. partition_pyprojects iter taplo fs = [Partition es None]
               \<and> sorted es \<and> distinct es
               \<and> set es = {f \<in> set fs. \<exists>p s. f = p @ ''pyproject.toml'' @ s}))"
proof -
  let ?es = "sort (pyproject_checker iter fs)"
  have it: "set (iter (set fs)) = set fs" "distinct (iter (set fs))"
    using assms by (simp_all add: set_iteration_def)
  have "set ?es = {f \<in> set fs. \<exists>p s. f = p @ ''pyproject.toml'' @ s}"
    using it(1) by (auto simp: pyproject_checker_def py_in_def sublist_def)
  moreover have "distinct ?es"
    using it(2) by (simp add: pyproject_checker_def)
  moreover have "sorted ?es" by simp
  ultimately show ?thesis
    by (auto simp: partition_pyprojects_def)
qed

theorem partition_pyprojects_elements_witness:
  "set_iteration (\<lambda>S. rev (sorted_list_of_set S))
   \<and> \<not> skip default_Taplo
   \<and> partition_pyprojects (\<lambda>S. rev (sorted_list_of_set S)) default_Taplo
        [''b/pyproject.toml'', ''a.toml'', ''pyproject.toml'', ''b/pyproject.toml'',
         ''x/pyproject.toml.bak'']
      = [Partition [''b/pyproject.toml'', ''pyproject.toml'', ''x/pyproject.toml.bak''] None]
   \<and> (\<exists>es. partition_pyprojects (\<lambda>S. rev (sorted_list_of_set S)) default_Taplo
        [''b/pyproject.toml'', ''a.toml'', ''pyproject.toml'', ''b/pyproject.toml'',
         ''x/pyproject.toml.bak''] = [Partition es None]
        \<and> sorted es \<and> distinct es
        \<and> set es = {f \<in> set [''b/pyproject.toml'', ''a.toml'', ''pyproject.toml'',
                               ''b/pyproject.toml'', ''x/pyproject.toml.bak''].
                     \<exists>p s. f = p @ ''pyproject.toml'' @ s})
   \<and> skip (default_Taplo\<lparr>skip := True\<rparr>)
   \<and> partition_pyprojects (\<lambda>S. rev (sorted_list_of_set S)) (default_Taplo\<lparr>skip := True\<rparr>)
        [''pyproject.toml''] = []"
proof -
  have h: "set_iteration (\<lambda>S. rev (sorted_list_of_set S))"
    by (simp add: set_iteration_def)
  have n: "\<not> skip default_Taplo"
    by (simp add: default_Taplo_def)
  have v: "partition_pyprojects (\<lambda>S. rev (sorted_list_of_set S)) default_Taplo
        [''b/pyproject.toml'', ''a.toml'', ''pyproject.toml'', ''b/pyproject.toml'',
         ''x/pyproject.toml.bak'']
      = [Partition [''b/pyproject.toml'', ''pyproject.toml'', ''x/pyproject.toml.bak''] None]"
    by code_simp
  have s: "skip (default_Taplo\<lparr>skip := True\<rparr>)"
    by simp
  show ?thesis
    using partition_pyprojects_elements [OF h, of default_Taplo
        "[''b/pyproject.toml'', ''a.toml'', ''pyproject.toml'', ''b/pyproject.toml'',
          ''x/pyproject.toml.bak'']"]
      partition_pyprojects_elements [OF h, of "default_Taplo\<lparr>skip := True\<rparr>" "[''pyproject.toml'']"]
      h n v s
    by simp
qed

text \<open>
  Claim C8. The request for configuration files checks the existence of \<open>.taplo.toml\<close>
  and \<open>taplo.toml\<close> in the root and in every directory of the list it is given, and of
  nothing else; the request holds these paths sorted. Its discovery flag is the option
  \<open>config_discovery\<close>, which is true by default. Both formatting rules give it the
  directories of the snapshot of the batch.
\<close>

theorem config_request_checks_both_names:
  "check_existence (config_request taplo ds)
     = sort (''.taplo.toml'' # map (\<lambda>d. path_join d ''.taplo.toml'') ds
             @ ''taplo.toml'' # map (\<lambda>d. path_join d ''taplo.toml'') ds)
   \<and> sorted (check_existence (config_request taplo ds))
   \<and> length (check_existence (config_request taplo ds)) = 2 * (length ds + 1)
   \<and> set (check_existence (config_request taplo ds))
       = {''.taplo.toml'', ''taplo.toml''}
         \<union> (\<lambda>d. path_join d ''.taplo.toml'') ` set ds
         \<union> (\<lambda>d. path_join d ''taplo.toml'') ` set ds
   \<and> (\<forall>d \<in> set ds. d \<noteq> [] \<and> last d \<noteq> CHR ''/'' \<longrightarrow>
         d @ ''/.taplo.toml'' \<in> set (check_existence (config_request taplo ds))
         \<and> d @ ''/taplo.toml'' \<in> set (check_existence (config_request taplo ds)))
   \<and> discovery (config_request taplo ds) = config_discovery taplo
   \<and> config_discovery default_Taplo
   \<and> input_digest (taplo_fmt engine request taplo platform)
       = merge_digests engine
           [snapshot_digest (snapshot request),
            tool_digest (get_downloaded_tool engine taplo platform),
            snapshot_digest
              (get_config_files engine (config_request taplo (dirs (snapshot request))))]
   \<and> input_digest (pyproject_toml_fmt engine request taplo platform)
       = merge_digests engine
           [snapshot_digest (snapshot request),
            tool_digest (get_downloaded_tool engine taplo platform),
            snapshot_digest
              (get_config_files engine (config_request taplo (dirs (snapshot request))))]"
proof -
  have m: "\<And>d. d \<in> set ds \<Longrightarrow> d \<noteq> [] \<Longrightarrow> last d \<noteq> CHR ''/'' \<Longrightarrow>
         d @ ''/.taplo.toml'' \<in> (\<lambda>d. path_join d ''.taplo.toml'') ` set ds
         \<and> d @ ''/taplo.toml'' \<in> (\<lambda>d. path_join d ''taplo.toml'') ` set ds"
    by (auto simp: image_iff path_join_name intro!: bexI)
  have c: "check_existence (config_request taplo ds)
     = sort (''.taplo.toml'' # map (\<lambda>d. path_join d ''.taplo.toml'') ds
             @ ''taplo.toml'' # map (\<lambda>d. path_join d ''taplo.toml'') ds)"
    by (simp add: config_request_def ConfigFilesRequest_init_def Let_def path_join_def)
  have s: "set (check_existence (config_request taplo ds))
       = {''.taplo.toml'', ''taplo.toml''}
         \<union> (\<lambda>d. path_join d ''.taplo.toml'') ` set ds
         \<union> (\<lambda>d. path_join d ''taplo.toml'') ` set ds"
    by (simp only: c set_sort) auto
  have l: "length (check_existence (config_request taplo ds)) = 2 * (length ds + 1)"
    by (simp only: c length_sort) simp
  have o: "sorted (check_existence (config_request taplo ds))"
    unfolding c by (rule sorted_sort)
  have d: "discovery (config_request taplo ds) = config_discovery taplo"
    by (simp add: config_request_def ConfigFilesRequest_init_def Let_def)
  have t: "config_discovery default_Taplo"
    by (simp add: default_Taplo_def)
  have i1: "input_digest (taplo_fmt engine request taplo platform)
       = merge_digests engine
           [snapshot_digest (snapshot request),
            tool_digest (get_downloaded_tool engine taplo platform),
            snapshot_digest
              (get_config_files engine (config_request taplo (dirs (snapshot request))))]"
    by (simp add: taplo_fmt_def Let_def)
  have i2: "input_digest (pyproject_toml_fmt engine request taplo platform)
       = merge_digests engine
           [snapshot_digest (snapshot request),
            tool_digest (get_downloaded_tool engine taplo platform),
            snapshot_digest
              (get_config_files engine (config_request taplo (dirs (snapshot request))))]"
    by (simp add: pyproject_toml_fmt_def Let_def)
  have mem: "\<forall>d \<in> set ds. d \<noteq> [] \<and> last d \<noteq> CHR ''/'' \<longrightarrow>
         d @ ''/.taplo.toml'' \<in> set (check_existence (config_request taplo ds))
         \<and> d @ ''/taplo.toml'' \<in> set (check_existence (config_request taplo ds))"
    unfolding s using m by blast
  from c o l s mem d t i1 i2 show ?thesis
    by (intro conjI)
qed

theorem config_request_checks_both_names_witness:
  "check_existence (config_request default_Taplo [''a'', ''a/b''])
     = [''.taplo.toml'', ''a/.taplo.toml'', ''a/b/.taplo.toml'',
        ''a/b/taplo.toml'', ''a/taplo.toml'', ''taplo.toml'']
   \<and> check_existence (config_request default_Taplo [''a''])
     = [''.taplo.toml'', ''a/.taplo.toml'', ''a/taplo.toml'', ''taplo.toml'']
   \<and> discovery (config_request default_Taplo [''a'', ''a/b''])"
proof -
  have a: "sort [''.taplo.toml'', path_join ''a'' ''.taplo.toml'', path_join ''a/b'' ''.taplo.toml'',
                 ''taplo.toml'', path_join ''a'' ''taplo.toml'', path_join ''a/b'' ''taplo.toml'']
     = [''.taplo.toml'', ''a/.taplo.toml'', ''a/b/.taplo.toml'',
        ''a/b/taplo.toml'', ''a/taplo.toml'', ''taplo.toml'']"
    by code_simp
  have b: "sort [''.taplo.toml'', path_join ''a'' ''.taplo.toml'',
                 ''taplo.toml'', path_join ''a'' ''taplo.toml'']
     = [''.taplo.toml'', ''a/.taplo.toml'', ''a/taplo.toml'', ''taplo.toml'']"
    by code_simp
  show ?thesis
    using config_request_checks_both_names [of default_Taplo "[''a'', ''a/b'']"]
      config_request_checks_both_names [of default_Taplo "[''a'']"] a b
    by simp
qed

text \<open>
  Claim C9. The field \<open>skip_taplo\<close> defaults to false, so a target that does not set it
  is not opted out. The sources field of the generator defaults to the glob \<open>*.toml\<close>
  and does not use source roots. The generator declares the dependencies field as moved
  and the common fields as copied, and all of these are fields of the generated target
  type.
\<close>

theorem declared_defaults:
  "field_default SkipTaploField = False
   \<and> opt_out tgt = (case tgt ''skip_taplo'' of None \<Rightarrow> False | Some v \<Rightarrow> v)
   \<and> sources_default TomlSourcesGeneratingSourcesField = [''*.toml'']
   \<and> uses_source_roots TomlSourcesGeneratingSourcesField = False
   \<and> default_sources_for_target_type (core_fields (TomlSourcesGeneratorTarget common)) = [''*.toml'']
   \<and> moved_fields (TomlSourcesGeneratorTarget common) = [TomlDependenciesField]
   \<and> copied_fields (TomlSourcesGeneratorTarget common) = COMMON_TARGET_FIELDS common
   \<and> set (moved_fields (TomlSourcesGeneratorTarget common)
          @ copied_fields (TomlSourcesGeneratorTarget common))
       \<subseteq> set (core_fields (generated_target_cls common))"
  by (auto simp: SkipTaploField_def opt_out_def target_get_value_def
      TomlSourcesGeneratingSourcesField_def TomlSourcesGeneratorTarget_def
      generated_target_cls_def TomlSourceTarget_def default_sources_common
      split: option.splits)

end
